theory Spec2Isabelle
  imports Main
begin

section \<open>The TypeScript generator: domain model\<close>

text \<open>
  The generator (\<^verbatim>\<open>typescript-generator/index.ts\<close>) walks the catalog
  \<^verbatim>\<open>specification.types\<close> and renders every type definition as a TypeScript
  declaration.
\<close>

text \<open>
  Modelled from the spec: the classes of the domain module, which the generator imports
  and whose declarations are not among the sources. The data model of the specification
  (its section 3) gives the variants and their fields; the fields kept here are those
  the generator reads.

  A type expression is one of the six classes that \<^verbatim>\<open>unwrapType\<close> accepts. For an
  \<^verbatim>\<open>ImplementsReference\<close> the first argument is \<^verbatim>\<open>type.type.name\<close> and the second
  is \<^verbatim>\<open>type.closedGenerics\<close>, a list in the data model (the branch of the sentinel
  name maps over it unguarded), so that \<^verbatim>\<open>Array.isArray\<close> holds of it. On a bare
  \<^verbatim>\<open>Type\<close> the field \<^verbatim>\<open>closedGenerics\<close> is optional; absent is \<open>None\<close>.
\<close>

datatype type_expr =
    ArrayOf type_expr
  | Dictionary type_expr type_expr
  | SingleKeyDictionary type_expr
  | UnionOf "type_expr list"
  | ImplementsReference string "type_expr list"
  | Type string "type_expr list option"

text \<open>A property; \<open>ptype = None\<close> is \<^verbatim>\<open>property.type === undefined\<close>.\<close>

record property =
  pname :: string
  ptype :: "type_expr option"
  nullable :: bool

record enum_member =
  mname :: string
  stringRepresentation :: string

record enum =
  ename :: string
  members :: "enum_member list"

text \<open>
  An interface. \<open>openGenerics\<close> and \<open>inherits\<close> are tested with \<^verbatim>\<open>Array.isArray\<close>
  before use, so they are optional here. \<open>inheritsFromUnresolved\<close> is an object keyed by
  ancestor name; the generator only tests whether its \<^verbatim>\<open>ResponseBase\<close> entry is truthy,
  and an entry, being an array, is truthy whenever it is present. \<open>properties\<close> is
  iterated unguarded.
\<close>

record interface =
  iname :: string
  openGenerics :: "string list option"
  inherits :: "type_expr list option"
  inheritsFromUnresolved :: "string \<rightharpoonup> type_expr list"
  properties :: "property list"

text \<open>
  A request interface is an interface with three more fields, each of which may be
  absent: the walker tests for it before it tests for an interface, and the header
  functions take either. Its body is a property list (\<^verbatim>\<open>Array.isArray(type.body)\<close>) or
  one type expression.
\<close>

datatype request_body =
    BodyProperties "property list"
  | BodyType type_expr

record request_interface = interface +
  path :: "property list option"
  queryParameters :: "property list option"
  body :: "request_body option"

text \<open>
  The entries of the catalog. \<open>Unrecognized\<close> stands for an entry that is an instance of
  none of the six classes the walker tests for; it only has a name.
\<close>

datatype type_definition =
    StringAlias string
  | NumberAlias string
  | UnionAlias string type_expr
  | RequestInterface request_interface
  | Interface interface
  | Enum enum
  | Unrecognized string

fun type_name :: "type_definition \<Rightarrow> string" where
  "type_name (StringAlias n) = n"
| "type_name (NumberAlias n) = n"
| "type_name (UnionAlias n w) = n"
| "type_name (RequestInterface r) = iname r"
| "type_name (Interface i) = iname i"
| "type_name (Enum e) = ename e"
| "type_name (Unrecognized n) = n"

fun is_Enum :: "type_definition \<Rightarrow> bool" where
  "is_Enum (Enum e) = True"
| "is_Enum d = False"

section \<open>Library functions of the host language\<close>

text \<open>\<^verbatim>\<open>Array.prototype.join\<close> on an array of strings.\<close>

fun join :: "string \<Rightarrow> string list \<Rightarrow> string" where
  "join sep [] = []"
| "join sep [x] = x"
| "join sep (x # y # ys) = x @ sep @ join sep (y # ys)"

text \<open>\<^verbatim>\<open>s.slice(0, -2)\<close>: the end index is \<open>max (length s - 2) 0\<close>.\<close>

definition slice_0_m2 :: "string \<Rightarrow> string" where
  "slice_0_m2 s = take (length s - 2) s"

text \<open>\<^verbatim>\<open>s.endsWith(suffix)\<close>.\<close>

definition endsWith :: "string \<Rightarrow> string \<Rightarrow> bool" where
  "endsWith s suf = (length suf \<le> length s \<and> drop (length s - length suf) s = suf)"

text \<open>The character classes \<^verbatim>\<open>\d\<close> and \<^verbatim>\<open>\w\<close> of a regular expression.\<close>

definition is_digit :: "char \<Rightarrow> bool" where
  "is_digit c = (c \<in> set ''0123456789'')"

definition is_word :: "char \<Rightarrow> bool" where
  "is_word c =
     (c \<in> set ''abcdefghijklmnopqrstuvwxyzABCDEFGHIJKLMNOPQRSTUVWXYZ0123456789_'')"

text \<open>The value of \<^verbatim>\<open>process.env.ENUM_AS_UNION\<close> is a string or absent; the empty
  string is falsy.\<close>

definition env_truthy :: "string option \<Rightarrow> bool" where
  "env_truthy env = (case env of None \<Rightarrow> False | Some s \<Rightarrow> s \<noteq> [])"

section \<open>The generator\<close>

definition stableApis :: "string list" where
  "stableApis =
     [''IndexRequest'', ''IndexResponse'', ''CreateRequest'', ''CreateResponse'',
      ''DeleteRequest'', ''DeleteResponse'', ''UpdateRequest'', ''UpdateResponse'',
      ''GetRequest'', ''GetResponse'']"

definition skipInterface :: "string list" where
  "skipInterface = [''ResponseBase'', ''DictionaryResponseBase'']"

subsection \<open>\<^verbatim>\<open>unwrapType\<close>\<close>

function unwrapType :: "type_expr \<Rightarrow> string" where
  "unwrapType (ArrayOf of') = unwrapType of' @ ''[]''"
| "unwrapType (Dictionary key val) =
     ''Record<'' @ unwrapType key @ '', '' @ unwrapType val @ ''>''"
| "unwrapType (SingleKeyDictionary val) = ''Record<string, '' @ unwrapType val @ ''>''"
| "unwrapType (UnionOf items) = join '' | '' (map unwrapType items)"
| "unwrapType (ImplementsReference n closedGenerics) =
     (if n = ''DictionaryResponseBase''
      then ''Record<'' @ join '', '' (map unwrapType closedGenerics) @ ''>''
      else if length closedGenerics > 1
      then n @ ''<'' @ join '', '' (map unwrapType closedGenerics) @ ''>''
      else n)"
| "unwrapType (Type n None) = n"
| "unwrapType (Type n (Some closedGenerics)) =
     (if length closedGenerics > 0
      then n @ ''<'' @ join '', '' (map unwrapType closedGenerics) @ ''>''
      else n)"
  by pat_completeness auto

text \<open>Every recursive call is on a component of the argument, which is smaller.\<close>

termination unwrapType
  by (relation "measure size") (auto simp: less_Suc_eq_le intro: le_SucI size_list_estimation')

subsection \<open>Header parts and member lines\<close>

definition buildGeneric :: "'a interface_scheme \<Rightarrow> string" where
  "buildGeneric t =
     (case openGenerics t of
        Some gs \<Rightarrow> if length gs > 0 then ''<'' @ join '', '' gs @ ''>'' else []
      | None \<Rightarrow> [])"

text \<open>The loop of \<^verbatim>\<open>buildInherits\<close>: \<^verbatim>\<open>code += unwrapType(inherit) + ', '\<close>.\<close>

fun inheritsLoop :: "string \<Rightarrow> type_expr list \<Rightarrow> string" where
  "inheritsLoop code [] = code"
| "inheritsLoop code (inherit # rest) = inheritsLoop (code @ unwrapType inherit @ '', '') rest"

definition buildInherits :: "'a interface_scheme \<Rightarrow> string" where
  "buildInherits t =
     (case inherits t of
        Some inh \<Rightarrow>
          if length inh > 0
          then if length inh = 1 \<and> inheritsFromUnresolved t ''ResponseBase'' \<noteq> None
               then []
               else slice_0_m2 (inheritsLoop '' extends '' inh)
          else []
      | None \<Rightarrow> [])"

definition cleanPropertyName :: "string \<Rightarrow> string" where
  "cleanPropertyName name =
     (if CHR ''.'' \<in> set name \<or> CHR ''-'' \<in> set name \<or>
         (case name of [] \<Rightarrow> False | c # cs \<Rightarrow> is_digit c \<or> \<not> is_word c)
      then ''\"'' @ name @ ''\"''
      else name)"

definition generateComment :: "'a interface_scheme \<Rightarrow> string" where
  "generateComment t =
     (if iname t \<in> set stableApis
      then ''  /**\<newline>'' @ ''   * @description Stability: STABLE\<newline>'' @ ''   */\<newline>''
      else if endsWith (iname t) ''Request'' \<or> endsWith (iname t) ''Response''
      then ''  /**\<newline>'' @ ''   * @description Stability: UNSTABLE\<newline>'' @ ''   */\<newline>''
      else [])"

text \<open>
  The property loop, which the generator writes out four times: three times with an
  indentation of four blanks and once, for the properties of a body, with six. A
  property without a type is skipped by \<^verbatim>\<open>continue\<close>.
\<close>

fun propertyLoop :: "string \<Rightarrow> string \<Rightarrow> property list \<Rightarrow> string" where
  "propertyLoop indent code [] = code"
| "propertyLoop indent code (p # ps) =
     (case ptype p of
        None \<Rightarrow> propertyLoop indent code ps
      | Some ty \<Rightarrow>
          propertyLoop indent
            (code @ indent @ cleanPropertyName (pname p) @ (if nullable p then ''?'' else [])
               @ '': '' @ unwrapType ty @ ''\<newline>'')
            ps)"

subsection \<open>The emitters\<close>

definition buildStringAlias :: "string \<Rightarrow> string" where
  "buildStringAlias n = ''  export type '' @ n @ '' = string''"

definition buildNumberAlias :: "string \<Rightarrow> string" where
  "buildNumberAlias n = ''  export type '' @ n @ '' = number''"

definition buildUnionAlias :: "string \<Rightarrow> type_expr \<Rightarrow> string" where
  "buildUnionAlias n wraps = ''  export type '' @ n @ '' = '' @ unwrapType wraps"

definition buildInterface :: "interface \<Rightarrow> string" where
  "buildInterface t =
     (let code = generateComment t;
          code = code @ ''  export interface '' @ iname t @ buildGeneric t @ buildInherits t
                   @ '' {\<newline>'';
          code = propertyLoop ''    '' code (properties t)
      in code @ ''  }'')"

definition buildRequestInterface :: "request_interface \<Rightarrow> string" where
  "buildRequestInterface t =
     (let code = generateComment t;
          code = code @ ''  export interface '' @ iname t @ buildGeneric t @ buildInherits t
                   @ '' {\<newline>'';
          code = (case path t of
                    Some ps \<Rightarrow> propertyLoop ''    '' code ps
                  | None \<Rightarrow> code);
          code = (case queryParameters t of
                    Some ps \<Rightarrow> propertyLoop ''    '' code ps
                  | None \<Rightarrow> code);
          code = (case body t of
                    Some (BodyProperties ps) \<Rightarrow>
                      propertyLoop ''      '' (code @ ''    body?: {\<newline>'') ps
                        @ ''    }\<newline>''
                  | Some (BodyType ty) \<Rightarrow> code @ ''    body?: '' @ unwrapType ty @ ''\<newline>''
                  | None \<Rightarrow> code)
      in code @ ''  }'')"

definition enumLiteral :: "enum_member \<Rightarrow> string" where
  "enumLiteral member =
     (if stringRepresentation member = ''true'' \<or> stringRepresentation member = ''false''
      then stringRepresentation member
      else ''\"'' @ stringRepresentation member @ ''\"'')"

fun enumLoop :: "string \<Rightarrow> enum_member list \<Rightarrow> string" where
  "enumLoop code [] = code"
| "enumLoop code (member # ms) =
     enumLoop (code @ ''    '' @ cleanPropertyName (mname member) @ '' = \"''
                 @ stringRepresentation member @ ''\",\<newline>'') ms"

definition buildEnum :: "string option \<Rightarrow> enum \<Rightarrow> string" where
  "buildEnum env t =
     (if env_truthy env
      then ''  export type '' @ ename t @ '' = '' @ join '' | '' (map enumLiteral (members t))
      else enumLoop (''  export enum '' @ ename t @ '' {\<newline>'') (members t) @ ''  }'')"

subsection \<open>The walker and the write\<close>

text \<open>
  One pass of the loop body: the declaration that the walker appends for an entry, or
  \<open>None\<close> when the entry is skipped (its name is in \<open>skipInterface\<close>) or falls through
  every \<^verbatim>\<open>instanceof\<close> test. \<open>env\<close> is \<^verbatim>\<open>process.env.ENUM_AS_UNION\<close>.
\<close>

definition emit :: "string option \<Rightarrow> type_definition \<Rightarrow> string option" where
  "emit env t =
     (if type_name t \<in> set skipInterface then None
      else case t of
        StringAlias n \<Rightarrow> Some (buildStringAlias n)
      | NumberAlias n \<Rightarrow> Some (buildNumberAlias n)
      | UnionAlias n w \<Rightarrow> Some (buildUnionAlias n w)
      | RequestInterface r \<Rightarrow> Some (buildRequestInterface r)
      | Interface i \<Rightarrow> Some (buildInterface i)
      | Enum e \<Rightarrow> Some (buildEnum env e)
      | Unrecognized n \<Rightarrow> None)"

fun walk :: "string option \<Rightarrow> string \<Rightarrow> type_definition list \<Rightarrow> string" where
  "walk env code [] = code"
| "walk env code (t # ts) =
     walk env (case emit env t of None \<Rightarrow> code | Some d \<Rightarrow> code @ d @ ''\<newline>\<newline>'') ts"

definition typeDefinitions :: "string option \<Rightarrow> type_definition list \<Rightarrow> string" where
  "typeDefinitions env types =
     slice_0_m2 (walk env ''declare namespace T {\<newline>'' types)
       @ ''\<newline>}\<newline>\<newline>export default T''"

text \<open>
  The file system is the log of the calls of \<^verbatim>\<open>fs.writeFileSync\<close>: the path, as the
  segments handed to \<^verbatim>\<open>path.join\<close>, and the data written.
\<close>

record fs_write =
  wpath :: "string list"
  wdata :: string

definition generator_main ::
  "string \<Rightarrow> string option \<Rightarrow> type_definition list \<Rightarrow> fs_write list \<Rightarrow> fs_write list" where
  "generator_main dirname env types log =
     log @ [\<lparr>wpath = [dirname, ''..'', ''output'', ''typescript'', ''types.ts''],
             wdata = typeDefinitions env types\<rparr>]"

text \<open>The declarations that a walk appends, in catalog order.\<close>

definition emitted :: "string option \<Rightarrow> type_definition list \<Rightarrow> string list" where
  "emitted env types = List.map_filter (emit env) types"


section \<open>Notions of the specification\<close>

text \<open>
  The member line of a property that has a type, at a given indentation: the sanitized
  name, a question mark when the property is nullable, a colon, the rendering of the type
  and a line break.
\<close>

definition member_line :: "string \<Rightarrow> property \<Rightarrow> string" where
  "member_line indent p =
     indent @ cleanPropertyName (pname p) @ (if nullable p then ''?'' else []) @ '': ''
       @ (case ptype p of None \<Rightarrow> [] | Some ty \<Rightarrow> unwrapType ty) @ ''\<newline>''"

text \<open>The properties with a defined type, in their order.\<close>

definition typed_properties :: "property list \<Rightarrow> property list" where
  "typed_properties ps = filter (\<lambda>p. ptype p \<noteq> None) ps"

text \<open>The stability annotation of a given level, \<open>STABLE\<close> or \<open>UNSTABLE\<close>.\<close>

definition annotation_comment :: "string \<Rightarrow> string" where
  "annotation_comment level =
     ''  /**\<newline>   * @description Stability: '' @ level @ ''\<newline>   */\<newline>''"

section \<open>Loops in closed form\<close>

lemma size_type_expr_member:
  "x \<in> set xs \<Longrightarrow> size x < Suc (size_list size xs)"
  by (induction xs) auto

lemma concat_sep_join:
  "xs \<noteq> [] \<Longrightarrow> concat (map (\<lambda>x. x @ sep) xs) = join sep xs @ sep"
  by (induction sep xs rule: join.induct) simp_all

lemma concat_sep_join_map:
  assumes "xs \<noteq> []"
  shows "concat (map (\<lambda>x. f x @ sep) xs) = join sep (map f xs) @ sep"
proof -
  have "concat (map (\<lambda>s. s @ sep) (map f xs)) = join sep (map f xs) @ sep"
    using assms by (intro concat_sep_join) simp
  then show ?thesis by (simp add: comp_def)
qed

lemma slice_0_m2_append2: "length sep = 2 \<Longrightarrow> slice_0_m2 (s @ sep) = s"
  by (simp add: slice_0_m2_def)

lemma slice_0_m2_append3: "length sep = 2 \<Longrightarrow> slice_0_m2 (a @ b @ sep) = a @ b"
  using slice_0_m2_append2 [of sep "a @ b"] by simp

lemma inheritsLoop_concat:
  "inheritsLoop code xs = code @ concat (map (\<lambda>x. unwrapType x @ '', '') xs)"
  by (induction xs arbitrary: code) simp_all

lemma inheritsLoop_join:
  assumes "xs \<noteq> []"
  shows "slice_0_m2 (inheritsLoop code xs) = code @ join '', '' (map unwrapType xs)"
proof -
  have "inheritsLoop code xs = code @ join '', '' (map unwrapType xs) @ '', ''"
    using assms by (simp add: inheritsLoop_concat concat_sep_join_map)
  moreover have "slice_0_m2 (code @ join '', '' (map unwrapType xs) @ '', '')
                   = code @ join '', '' (map unwrapType xs)"
    by (rule slice_0_m2_append3) simp
  ultimately show ?thesis by (simp only:)
qed

lemma propertyLoop_concat:
  "propertyLoop indent code ps
     = code @ concat (map (member_line indent) (typed_properties ps))"
  by (induction ps arbitrary: code)
     (auto simp: typed_properties_def member_line_def split: option.splits)

lemma walk_concat:
  "walk env code ts = code @ concat (map (\<lambda>d. d @ ''\<newline>\<newline>'') (emitted env ts))"
  by (induction ts arbitrary: code)
     (auto simp: emitted_def split: option.splits)

lemma typeDefinitions_wraps:
  assumes "emitted env types \<noteq> []"
  shows "typeDefinitions env types
           = ''declare namespace T {\<newline>'' @ join ''\<newline>\<newline>'' (emitted env types)
               @ ''\<newline>}\<newline>\<newline>export default T''"
proof -
  have "walk env ''declare namespace T {\<newline>'' types
          = ''declare namespace T {\<newline>'' @ join ''\<newline>\<newline>'' (emitted env types) @ ''\<newline>\<newline>''"
    using assms by (simp add: walk_concat concat_sep_join)
  moreover have "slice_0_m2 (''declare namespace T {\<newline>'' @ join ''\<newline>\<newline>'' (emitted env types)
                    @ ''\<newline>\<newline>'')
                   = ''declare namespace T {\<newline>'' @ join ''\<newline>\<newline>'' (emitted env types)"
    by (rule slice_0_m2_append3) simp
  ultimately show ?thesis
    by (simp only: typeDefinitions_def append_assoc)
qed

lemma typeDefinitions_nothing_emitted:
  assumes "emitted env types = []"
  shows "typeDefinitions env types = ''declare namespace T \<newline>}\<newline>\<newline>export default T''"
  using assms by (simp add: typeDefinitions_def walk_concat slice_0_m2_def)

lemma endsWith_iff: "endsWith s suf \<longleftrightarrow> (\<exists>p. s = p @ suf)"
proof
  assume "endsWith s suf"
  then have "s = take (length s - length suf) s @ suf"
    by (metis append_take_drop_id endsWith_def)
  then show "\<exists>p. s = p @ suf" ..
next
  assume "\<exists>p. s = p @ suf"
  then show "endsWith s suf"
    by (auto simp: endsWith_def)
qed

lemma buildInterface_closed:
  "buildInterface t
     = generateComment t @ ''  export interface '' @ iname t @ buildGeneric t @ buildInherits t
         @ '' {\<newline>'' @ concat (map (member_line ''    '') (typed_properties (properties t)))
         @ ''  }''"
  by (simp add: buildInterface_def propertyLoop_concat)

lemma buildRequestInterface_closed:
  "buildRequestInterface t
     = generateComment t @ ''  export interface '' @ iname t @ buildGeneric t @ buildInherits t
         @ '' {\<newline>''
         @ (case path t of None \<Rightarrow> []
            | Some ps \<Rightarrow> concat (map (member_line ''    '') (typed_properties ps)))
         @ (case queryParameters t of None \<Rightarrow> []
            | Some ps \<Rightarrow> concat (map (member_line ''    '') (typed_properties ps)))
         @ (case body t of None \<Rightarrow> []
            | Some (BodyProperties ps) \<Rightarrow>
                ''    body?: {\<newline>''
                  @ concat (map (member_line ''      '') (typed_properties ps))
                  @ ''    }\<newline>''
            | Some (BodyType ty) \<Rightarrow> ''    body?: '' @ unwrapType ty @ ''\<newline>'')
         @ ''  }''"
  by (simp add: buildRequestInterface_def propertyLoop_concat
           split: option.splits request_body.splits)

lemma buildInherits_closed:
  assumes "inherits t = Some inh" and "inh \<noteq> []"
  shows "buildInherits t =
           (if length inh = 1 \<and> inheritsFromUnresolved t ''ResponseBase'' \<noteq> None then []
            else '' extends '' @ join '', '' (map unwrapType inh))"
  using assms by (simp add: buildInherits_def inheritsLoop_join)


section \<open>The type expression resolver\<close>

lemma unwrapType_rel_size: "unwrapType_rel c e \<Longrightarrow> size c < size e"
  by (induction rule: unwrapType_rel.induct) (auto dest: size_type_expr_member)

text \<open>
  Claim C9. \<open>unwrapType\<close> is total on every type expression built from the six variants:
  every expression is in the accessible part of the relation \<open>unwrapType_rel\<close> of its
  recursive calls, and every recursive call is on an expression of strictly smaller
  size. The result is a string and there is no failure branch; the function never
  consults the catalog, so a bare name is rendered as itself whether or not the catalog
  declares it.
\<close>

theorem unwrapType_total:
  "unwrapType_dom e \<and> (\<forall>c. unwrapType_rel c e \<longrightarrow> size c < size e)
     \<and> unwrapType (Type n None) = n"
proof -
  have "unwrapType_dom e"
  proof (induction e rule: measure_induct_rule [of size])
    case (less e)
    show ?case
      by (rule accpI) (simp add: less.IH unwrapType_rel_size)
  qed
  then show ?thesis
    by (simp add: unwrapType_rel_size)
qed

theorem unwrapType_total_witness:
  "unwrapType_dom (UnionOf [Type ''A'' None, ArrayOf (Type ''B'' None)])
     \<and> unwrapType_rel (Type ''A'' None) (UnionOf [Type ''A'' None, ArrayOf (Type ''B'' None)])
     \<and> size (Type ''A'' None) < size (UnionOf [Type ''A'' None, ArrayOf (Type ''B'' None)])
     \<and> unwrapType (Type ''NoSuchType'' None) = ''NoSuchType''"
proof -
  have r: "unwrapType_rel (Type ''A'' None) (UnionOf [Type ''A'' None, ArrayOf (Type ''B'' None)])"
    by (rule unwrapType_rel.intros) simp
  show ?thesis
    using r unwrapType_total [of "UnionOf [Type ''A'' None, ArrayOf (Type ''B'' None)]" "''NoSuchType''"]
    by blast
qed

text \<open>
  Claim C3. An \<open>ImplementsReference\<close> whose referenced name is the sentinel
  \<open>DictionaryResponseBase\<close> renders as \<open>Record<\<dots>>\<close> over the renderings of its
  closed generics in order; any other reference with more than one closed generic
  renders as its name parameterized by these renderings in order; with no or exactly one
  closed generic it renders as the bare name.
\<close>

theorem unwrapType_ImplementsReference:
  "unwrapType (ImplementsReference n gs) =
     (if n = ''DictionaryResponseBase''
      then ''Record<'' @ join '', '' (map unwrapType gs) @ ''>''
      else if 1 < length gs then n @ ''<'' @ join '', '' (map unwrapType gs) @ ''>''
      else n)"
  by simp

theorem unwrapType_ImplementsReference_witness:
  "unwrapType (ImplementsReference ''DictionaryResponseBase'' [Type ''K'' None, Type ''V'' None])
     = ''Record<K, V>''
   \<and> unwrapType (ImplementsReference ''Pair'' [Type ''K'' None, Type ''V'' None]) = ''Pair<K, V>''
   \<and> unwrapType (ImplementsReference ''Box'' [Type ''K'' None]) = ''Box''
   \<and> unwrapType (ImplementsReference ''Box'' []) = ''Box''"
  using unwrapType_ImplementsReference [of "''DictionaryResponseBase''" "[Type ''K'' None, Type ''V'' None]"]
        unwrapType_ImplementsReference [of "''Pair''" "[Type ''K'' None, Type ''V'' None]"]
        unwrapType_ImplementsReference [of "''Box''" "[Type ''K'' None]"]
        unwrapType_ImplementsReference [of "''Box''" "[]"]
  by simp

section \<open>The emitters\<close>

text \<open>
  Claim C7. In literal-union mode (the environment variable is truthy) an enum is
  emitted as a one-line alias whose right-hand side joins, with the alternation bar and
  in member order, each member's \<open>stringRepresentation\<close> in double quotes, except that
  the representations \<open>true\<close> and \<open>false\<close> are emitted without quotes.
\<close>

theorem buildEnum_literal_union:
  assumes "env_truthy env"
  shows "buildEnum env t
           = ''  export type '' @ ename t @ '' = ''
               @ join '' | ''
                   (map (\<lambda>m. if stringRepresentation m = ''true'' \<or> stringRepresentation m = ''false''
                              then stringRepresentation m
                              else ''\"'' @ stringRepresentation m @ ''\"'')
                        (members t))"
  using assms by (simp add: buildEnum_def enumLiteral_def cong: map_cong)

theorem buildEnum_literal_union_witness:
  "env_truthy (Some ''1'')
   \<and> buildEnum (Some ''1'')
        \<lparr>ename = ''Conflicts'',
         members = [\<lparr>mname = ''abort'', stringRepresentation = ''abort''\<rparr>,
                    \<lparr>mname = ''yes'', stringRepresentation = ''true''\<rparr>,
                    \<lparr>mname = ''proceed'', stringRepresentation = ''proceed''\<rparr>]\<rparr>
       = ''  export type Conflicts = \"abort\" | true | \"proceed\"''"
proof -
  have h: "env_truthy (Some ''1'')" by (simp add: env_truthy_def)
  show ?thesis
    using h buildEnum_literal_union [OF h, of
        "\<lparr>ename = ''Conflicts'',
          members = [\<lparr>mname = ''abort'', stringRepresentation = ''abort''\<rparr>,
                     \<lparr>mname = ''yes'', stringRepresentation = ''true''\<rparr>,
                     \<lparr>mname = ''proceed'', stringRepresentation = ''proceed''\<rparr>]\<rparr>"]
    by simp
qed

text \<open>
  Claim C8. For a type definition that is not an enum the declaration the walker
  appends is the same for any two values of the environment variable: the toggle only
  reaches the enum emitter. Hence two runs over a catalog without enums write the same
  text.
\<close>

theorem emit_toggle_noninterference:
  "(\<not> is_Enum d \<longrightarrow> emit env1 d = emit env2 d)
   \<and> ((\<forall>d \<in> set types. \<not> is_Enum d)
        \<longrightarrow> typeDefinitions env1 types = typeDefinitions env2 types)"
proof -
  have one: "emit env1 d = emit env2 d" if "\<not> is_Enum d" for d
    using that by (cases d) (simp_all add: emit_def)
  have "emitted env1 types = emitted env2 types" if "\<forall>d \<in> set types. \<not> is_Enum d"
    using that
    by (induction types) (simp_all add: emitted_def List.map_filter_simps one split: option.splits)
  then show ?thesis
    by (simp add: one typeDefinitions_def walk_concat)
qed

theorem emit_toggle_noninterference_witness:
  "\<not> is_Enum (UnionAlias ''Id'' (UnionOf [Type ''string'' None, Type ''number'' None]))
   \<and> emit (Some ''1'') (UnionAlias ''Id'' (UnionOf [Type ''string'' None, Type ''number'' None]))
       = emit None (UnionAlias ''Id'' (UnionOf [Type ''string'' None, Type ''number'' None]))
   \<and> typeDefinitions (Some ''1'') [UnionAlias ''Id'' (UnionOf [Type ''string'' None, Type ''number'' None])]
       = typeDefinitions None [UnionAlias ''Id'' (UnionOf [Type ''string'' None, Type ''number'' None])]"
  using emit_toggle_noninterference
          [of "UnionAlias ''Id'' (UnionOf [Type ''string'' None, Type ''number'' None])" "Some ''1''" None
              "[UnionAlias ''Id'' (UnionOf [Type ''string'' None, Type ''number'' None])]"]
  by simp

section \<open>The inheritance clause\<close>

text \<open>
  An interface whose only ancestor is the excluded name \<open>DictionaryResponseBase\<close> keeps
  its inheritance clause: the ancestor renders as a \<open>Record\<close> type.
\<close>

theorem buildInherits_excluded_counterexample:
  "''DictionaryResponseBase'' \<in> set skipInterface
   \<and> buildInterface
        \<lparr>iname = ''Settings'', openGenerics = None,
         inherits = Some [ImplementsReference ''DictionaryResponseBase''
                            [Type ''string'' None, Type ''Setting'' None]],
         inheritsFromUnresolved =
           [''DictionaryResponseBase'' \<mapsto> [Type ''string'' None, Type ''Setting'' None]],
         properties = []\<rparr>
       = ''  export interface Settings extends Record<string, Setting> {\<newline>  }''"
  by (simp add: skipInterface_def buildInterface_def generateComment_def stableApis_def
        endsWith_def buildGeneric_def buildInherits_def slice_0_m2_def)

text \<open>
  Claim C1, as amended. For an interface or request interface with a non-empty
  \<open>inherits\<close> list: when the list has exactly one entry and \<open>inheritsFromUnresolved\<close> has
  a \<open>ResponseBase\<close> entry, \<open>buildInherits\<close> is empty and the declaration has no
  inheritance clause; when the list has two or more entries, or \<open>inheritsFromUnresolved\<close>
  has no \<open>ResponseBase\<close> entry, the clause is \<open>extends\<close> followed by the rendering of
  every ancestor in list order, separated by commas. Both emitters place the clause
  after the name and the generic parameters of the header line.
\<close>

theorem buildInherits_clause:
  fixes t :: "'a interface_scheme"
  assumes "inherits t = Some inh" and "inh \<noteq> []"
  shows "(length inh = 1 \<and> inheritsFromUnresolved t ''ResponseBase'' \<noteq> None
            \<longrightarrow> buildInherits t = [])
       \<and> (2 \<le> length inh \<or> inheritsFromUnresolved t ''ResponseBase'' = None
            \<longrightarrow> buildInherits t = '' extends '' @ join '', '' (map unwrapType inh))
       \<and> (\<exists>members. buildInterface i
              = generateComment i @ ''  export interface '' @ iname i @ buildGeneric i
                  @ buildInherits i @ '' {\<newline>'' @ members)
       \<and> (\<exists>members. buildRequestInterface r
              = generateComment r @ ''  export interface '' @ iname r @ buildGeneric r
                  @ buildInherits r @ '' {\<newline>'' @ members)"
proof -
  have "buildInherits t =
          (if length inh = 1 \<and> inheritsFromUnresolved t ''ResponseBase'' \<noteq> None then []
           else '' extends '' @ join '', '' (map unwrapType inh))"
    using assms by (rule buildInherits_closed)
  moreover have "\<exists>members. buildInterface i
              = generateComment i @ ''  export interface '' @ iname i @ buildGeneric i
                  @ buildInherits i @ '' {\<newline>'' @ members"
    by (subst buildInterface_closed) blast
  moreover have "\<exists>members. buildRequestInterface r
              = generateComment r @ ''  export interface '' @ iname r @ buildGeneric r
                  @ buildInherits r @ '' {\<newline>'' @ members"
    by (subst buildRequestInterface_closed) blast
  ultimately show ?thesis by auto
qed


theorem buildInherits_clause_witness:
  "inherits \<lparr>iname = ''GetResponse'', openGenerics = Some [''T''],
             inherits = Some [ImplementsReference ''ResponseBase'' []],
             inheritsFromUnresolved = [''ResponseBase'' \<mapsto> []], properties = []\<rparr>
      = Some [ImplementsReference ''ResponseBase'' []]
   \<and> [ImplementsReference ''ResponseBase'' []] \<noteq> []
   \<and> buildInherits \<lparr>iname = ''GetResponse'', openGenerics = Some [''T''],
             inherits = Some [ImplementsReference ''ResponseBase'' []],
             inheritsFromUnresolved = [''ResponseBase'' \<mapsto> []], properties = []\<rparr> = []
   \<and> buildInherits \<lparr>iname = ''Hit'', openGenerics = None,
             inherits = Some [Type ''Base'' None, ImplementsReference ''Pair'' [Type ''K'' None, Type ''V'' None]],
             inheritsFromUnresolved = Map.empty, properties = []\<rparr> = '' extends Base, Pair<K, V>''"
  using buildInherits_clause [of
          "\<lparr>iname = ''GetResponse'', openGenerics = Some [''T''],
             inherits = Some [ImplementsReference ''ResponseBase'' []],
             inheritsFromUnresolved = [''ResponseBase'' \<mapsto> []], properties = []\<rparr>"
          "[ImplementsReference ''ResponseBase'' []]"]
        buildInherits_clause [of
          "\<lparr>iname = ''Hit'', openGenerics = None,
             inherits = Some [Type ''Base'' None, ImplementsReference ''Pair'' [Type ''K'' None, Type ''V'' None]],
             inheritsFromUnresolved = Map.empty, properties = []\<rparr>"
          "[Type ''Base'' None, ImplementsReference ''Pair'' [Type ''K'' None, Type ''V'' None]]"]
  by simp

section \<open>The stability annotation\<close>

text \<open>
  An alias and an enum named as a stable API are emitted without any annotation: only
  the two interface emitters call \<open>generateComment\<close>.
\<close>

theorem alias_annotation_counterexample:
  "''IndexRequest'' \<in> set stableApis
   \<and> emit None (StringAlias ''IndexRequest'') = Some ''  export type IndexRequest = string''
   \<and> emit None (Enum \<lparr>ename = ''IndexRequest'', members = []\<rparr>)
       = Some ''  export enum IndexRequest {\<newline>  }''"
  by (simp add: stableApis_def emit_def skipInterface_def buildStringAlias_def buildEnum_def
        env_truthy_def)

lemma generateComment_cases:
  fixes t :: "'a interface_scheme"
  shows "generateComment t =
     (if iname t \<in> set stableApis then annotation_comment ''STABLE''
      else if (\<exists>p. iname t = p @ ''Request'') \<or> (\<exists>p. iname t = p @ ''Response'')
      then annotation_comment ''UNSTABLE'' else [])"
  unfolding generateComment_def annotation_comment_def endsWith_iff by simp

lemma enumLoop_concat:
  "enumLoop code ms
     = code @ concat (map (\<lambda>member. ''    '' @ cleanPropertyName (mname member) @ '' = \"''
                 @ stringRepresentation member @ ''\",\<newline>'') ms)"
  by (induction ms arbitrary: code) simp_all

lemma emit_other_export:
  assumes "\<forall>i. d \<noteq> Interface i" and "\<forall>r. d \<noteq> RequestInterface r"
    and "emit env d = Some decl"
  shows "\<exists>rest. decl = ''  export '' @ rest"
proof (cases d)
  case (Enum e)
  with assms(3) show ?thesis
    by (cases "env_truthy env")
       (auto simp: emit_def buildEnum_def enumLoop_concat split: if_splits)
qed (use assms in \<open>auto simp: emit_def buildStringAlias_def buildNumberAlias_def
       buildUnionAlias_def split: if_splits\<close>)

text \<open>
  Claim C2, as amended. The declaration of every interface and request interface that
  the walker emits starts with the annotation \<open>generateComment\<close>, followed by the header
  line. The annotation is the \<open>STABLE\<close> comment when the name is in \<open>stableApis\<close>, the
  \<open>UNSTABLE\<close> comment when the name is not in that list and ends in \<open>Request\<close> or
  \<open>Response\<close>, and empty otherwise; it is the same for two definitions of the same name.
  The declaration of an alias or an enum starts with \<open>export\<close>: it has no annotation.
\<close>

theorem generateComment_interfaces:
  fixes t :: "'a interface_scheme" and t' :: "'b interface_scheme"
  shows "(iname t \<in> set stableApis \<longrightarrow> generateComment t = annotation_comment ''STABLE'')
   \<and> (iname t \<notin> set stableApis
        \<and> ((\<exists>p. iname t = p @ ''Request'') \<or> (\<exists>p. iname t = p @ ''Response''))
      \<longrightarrow> generateComment t = annotation_comment ''UNSTABLE'')
   \<and> (iname t \<notin> set stableApis
        \<and> (\<nexists>p. iname t = p @ ''Request'') \<and> (\<nexists>p. iname t = p @ ''Response'')
      \<longrightarrow> generateComment t = [])
   \<and> (iname t = iname t' \<longrightarrow> generateComment t = generateComment t')
   \<and> (iname i \<notin> set skipInterface
      \<longrightarrow> (\<exists>rest. emit env (Interface i)
                    = Some (generateComment i @ ''  export interface '' @ iname i @ rest)))
   \<and> (iname r \<notin> set skipInterface
      \<longrightarrow> (\<exists>rest. emit env (RequestInterface r)
                    = Some (generateComment r @ ''  export interface '' @ iname r @ rest)))
   \<and> ((\<forall>i. d \<noteq> Interface i) \<and> (\<forall>r. d \<noteq> RequestInterface r) \<and> emit env d = Some decl
      \<longrightarrow> (\<exists>rest. decl = ''  export '' @ rest))"
proof -
  have "iname t = iname t' \<longrightarrow> generateComment t = generateComment t'"
    by (simp add: generateComment_def)
  moreover have "iname i \<notin> set skipInterface
      \<longrightarrow> (\<exists>rest. emit env (Interface i)
                    = Some (generateComment i @ ''  export interface '' @ iname i @ rest))"
    by (simp add: emit_def buildInterface_closed)
  moreover have "iname r \<notin> set skipInterface
      \<longrightarrow> (\<exists>rest. emit env (RequestInterface r)
                    = Some (generateComment r @ ''  export interface '' @ iname r @ rest))"
    by (simp add: emit_def buildRequestInterface_closed)
  moreover have "(\<forall>i. d \<noteq> Interface i) \<and> (\<forall>r. d \<noteq> RequestInterface r) \<and> emit env d = Some decl
      \<longrightarrow> (\<exists>rest. decl = ''  export '' @ rest)"
    using emit_other_export by blast
  ultimately show ?thesis
    by (simp add: generateComment_cases [of t])
qed

theorem generateComment_interfaces_witness:
  "generateComment \<lparr>iname = ''IndexRequest'', openGenerics = None, inherits = None,
       inheritsFromUnresolved = Map.empty, properties = []\<rparr> = annotation_comment ''STABLE''
   \<and> generateComment \<lparr>iname = ''SearchRequest'', openGenerics = None, inherits = None,
       inheritsFromUnresolved = Map.empty, properties = []\<rparr> = annotation_comment ''UNSTABLE''
   \<and> generateComment \<lparr>iname = ''Hit'', openGenerics = None, inherits = None,
       inheritsFromUnresolved = Map.empty, properties = []\<rparr> = []
   \<and> emit None (Interface \<lparr>iname = ''IndexRequest'', openGenerics = None, inherits = None,
       inheritsFromUnresolved = Map.empty, properties = []\<rparr>)
       = Some (''  /**\<newline>   * @description Stability: STABLE\<newline>   */\<newline>''
                 @ ''  export interface IndexRequest {\<newline>  }'')
   \<and> emit None (NumberAlias ''IndexRequest'') = Some ''  export type IndexRequest = number''
   \<and> (\<exists>rest. ''  export type IndexRequest = number'' = ''  export '' @ rest)"
proof -
  let ?a = "\<lparr>iname = ''IndexRequest'', openGenerics = None, inherits = None,
       inheritsFromUnresolved = Map.empty, properties = []\<rparr>"
  let ?b = "\<lparr>iname = ''SearchRequest'', openGenerics = None, inherits = None,
       inheritsFromUnresolved = Map.empty, properties = []\<rparr>"
  let ?c = "\<lparr>iname = ''Hit'', openGenerics = None, inherits = None,
       inheritsFromUnresolved = Map.empty, properties = []\<rparr>"
  let ?d = "NumberAlias ''IndexRequest''"
  have a: "iname ?a \<in> set stableApis" by (simp add: stableApis_def)
  have b: "iname ?b \<notin> set stableApis
             \<and> ((\<exists>p. iname ?b = p @ ''Request'') \<or> (\<exists>p. iname ?b = p @ ''Response''))"
    by (simp add: stableApis_def)
  have c: "iname ?c \<notin> set stableApis
             \<and> (\<nexists>p. iname ?c = p @ ''Request'') \<and> (\<nexists>p. iname ?c = p @ ''Response'')"
    by (simp add: stableApis_def endsWith_iff [symmetric] endsWith_def)
  have d: "emit None (Interface ?a)
       = Some (''  /**\<newline>   * @description Stability: STABLE\<newline>   */\<newline>''
                 @ ''  export interface IndexRequest {\<newline>  }'')"
    by (simp add: emit_def skipInterface_def buildInterface_def generateComment_def
          stableApis_def buildGeneric_def buildInherits_def)
  have e: "(\<forall>i. ?d \<noteq> Interface i) \<and> (\<forall>r. ?d \<noteq> RequestInterface r)
             \<and> emit None ?d = Some ''  export type IndexRequest = number''"
    by (simp add: emit_def skipInterface_def buildNumberAlias_def)
  note T = generateComment_interfaces
        [where t = "?a" and d = "?d" and env = None
           and decl = "''  export type IndexRequest = number''"]
  have 1: "generateComment ?a = annotation_comment ''STABLE''"
    by (rule T [THEN conjunct1, THEN mp, OF a])
  have 2: "generateComment ?b = annotation_comment ''UNSTABLE''"
    by (rule generateComment_interfaces [where t = "?b",
               THEN conjunct2, THEN conjunct1, THEN mp, OF b])
  have 3: "generateComment ?c = []"
    by (rule generateComment_interfaces [where t = "?c",
               THEN conjunct2, THEN conjunct2, THEN conjunct1, THEN mp, OF c])
  have f: "\<exists>rest. ''  export type IndexRequest = number'' = ''  export '' @ rest"
    by (rule T [THEN conjunct2, THEN conjunct2, THEN conjunct2, THEN conjunct2,
                THEN conjunct2, THEN conjunct2, THEN mp, OF e])
  have g: "emit None ?d = Some ''  export type IndexRequest = number''"
    by (rule e [THEN conjunct2, THEN conjunct2])
  show ?thesis
    by (intro conjI 1 2 3 d f g)
qed

section \<open>Members of interfaces and request interfaces\<close>

text \<open>
  Claim C5. The member lines of a request interface are those of the path properties,
  then those of the query parameters, then the body. Each property with a type gives the
  line \<open>member_line\<close>: the sanitized name, a question mark when nullable, and the
  rendering of its type. A body that is a property list is the optional member \<open>body\<close>
  holding the lines of its properties two blanks deeper; a body that is one type
  expression is the flat optional member \<open>body\<close> with the rendering of that expression.
\<close>

theorem buildRequestInterface_members:
  "buildRequestInterface t
     = generateComment t @ ''  export interface '' @ iname t @ buildGeneric t @ buildInherits t
         @ '' {\<newline>''
         @ (case path t of None \<Rightarrow> []
            | Some ps \<Rightarrow> concat (map (member_line ''    '') (typed_properties ps)))
         @ (case queryParameters t of None \<Rightarrow> []
            | Some ps \<Rightarrow> concat (map (member_line ''    '') (typed_properties ps)))
         @ (case body t of None \<Rightarrow> []
            | Some (BodyProperties ps) \<Rightarrow>
                ''    body?: {\<newline>''
                  @ concat (map (member_line ''      '') (typed_properties ps))
                  @ ''    }\<newline>''
            | Some (BodyType ty) \<Rightarrow> ''    body?: '' @ unwrapType ty @ ''\<newline>'')
         @ ''  }''
   \<and> (ptype p = Some ty \<longrightarrow>
        member_line indent p
          = indent @ cleanPropertyName (pname p) @ (if nullable p then ''?'' else [])
              @ '': '' @ unwrapType ty @ ''\<newline>'')"
  by (simp add: buildRequestInterface_closed member_line_def)

theorem buildRequestInterface_members_witness:
  "ptype \<lparr>pname = ''timeout'', ptype = Some (Type ''Duration'' None), nullable = True\<rparr>
     = Some (Type ''Duration'' None)
   \<and> member_line ''    '' \<lparr>pname = ''timeout'', ptype = Some (Type ''Duration'' None), nullable = True\<rparr>
       = ''    timeout?: Duration\<newline>''
   \<and> buildRequestInterface
        \<lparr>iname = ''Search'', openGenerics = None, inherits = None,
         inheritsFromUnresolved = Map.empty, properties = [],
         path = Some [\<lparr>pname = ''index'', ptype = Some (Type ''Indices'' None), nullable = False\<rparr>],
         queryParameters =
           Some [\<lparr>pname = ''timeout'', ptype = Some (Type ''Duration'' None), nullable = True\<rparr>],
         body = Some (BodyProperties
           [\<lparr>pname = ''query'', ptype = Some (Type ''QueryContainer'' None), nullable = True\<rparr>,
            \<lparr>pname = ''runtime.fields'', ptype = None, nullable = True\<rparr>])\<rparr>
       = ''  export interface Search {\<newline>''
           @ ''    index: Indices\<newline>''
           @ ''    timeout?: Duration\<newline>''
           @ ''    body?: {\<newline>''
           @ ''      query?: QueryContainer\<newline>''
           @ ''    }\<newline>''
           @ ''  }''"
proof -
  let ?q = "\<lparr>pname = ''timeout'', ptype = Some (Type ''Duration'' None), nullable = True\<rparr>"
  let ?t = "\<lparr>iname = ''Search'', openGenerics = None, inherits = None,
         inheritsFromUnresolved = Map.empty, properties = [],
         path = Some [\<lparr>pname = ''index'', ptype = Some (Type ''Indices'' None), nullable = False\<rparr>],
         queryParameters = Some [?q],
         body = Some (BodyProperties
           [\<lparr>pname = ''query'', ptype = Some (Type ''QueryContainer'' None), nullable = True\<rparr>,
            \<lparr>pname = ''runtime.fields'', ptype = None, nullable = True\<rparr>])\<rparr>"
  have c: "cleanPropertyName ''index'' = ''index''" "cleanPropertyName ''timeout'' = ''timeout''"
    "cleanPropertyName ''query'' = ''query''"
    by (simp_all add: cleanPropertyName_def is_digit_def is_word_def)
  show ?thesis
    using buildRequestInterface_members [of ?t ?q "Type ''Duration'' None" "''    ''"]
    by (simp add: c member_line_def typed_properties_def generateComment_def stableApis_def
          endsWith_def buildGeneric_def buildInherits_def)
qed

lemma member_line_one_newline:
  assumes "CHR ''\<newline>'' \<notin> set indent" and "ptype p = Some ty"
    and "CHR ''\<newline>'' \<notin> set (pname p)" and "CHR ''\<newline>'' \<notin> set (unwrapType ty)"
  shows "count_list (member_line indent p) CHR ''\<newline>'' = 1"
  using assms by (simp add: member_line_def cleanPropertyName_def)

lemma member_lines_newlines:
  assumes "CHR ''\<newline>'' \<notin> set indent"
    and "\<forall>p \<in> set ps. \<exists>ty. ptype p = Some ty \<and> CHR ''\<newline>'' \<notin> set (pname p)
           \<and> CHR ''\<newline>'' \<notin> set (unwrapType ty)"
  shows "count_list (concat (map (member_line indent) ps)) CHR ''\<newline>'' = length ps"
  using assms
  by (induction ps) (auto simp: member_line_one_newline)

text \<open>
  Claim C6. The block of an interface holds, between the header line and the closing
  brace, exactly the member lines of the properties that have a type, one for each such
  property and in their order; their number is the number \<open>k\<close> of properties with a
  type, and a property without a type contributes nothing. When no name and no rendered
  type of these properties holds a line break, the member section has exactly \<open>k\<close> line
  breaks. The emitter returns the block only: there is no diagnostic.
\<close>

theorem buildInterface_member_lines:
  "buildInterface t
     = generateComment t @ ''  export interface '' @ iname t @ buildGeneric t @ buildInherits t
         @ '' {\<newline>''
         @ concat (map (member_line ''    '') (typed_properties (properties t)))
         @ ''  }''
   \<and> length (map (member_line ''    '') (typed_properties (properties t)))
       = length (filter (\<lambda>p. ptype p \<noteq> None) (properties t))
   \<and> ((\<forall>p \<in> set (properties t). \<forall>ty. ptype p = Some ty \<longrightarrow>
           CHR ''\<newline>'' \<notin> set (pname p) \<and> CHR ''\<newline>'' \<notin> set (unwrapType ty))
      \<longrightarrow> count_list (concat (map (member_line ''    '') (typed_properties (properties t))))
            CHR ''\<newline>''
          = length (filter (\<lambda>p. ptype p \<noteq> None) (properties t)))"
proof -
  have "count_list (concat (map (member_line ''    '') (typed_properties (properties t))))
            CHR ''\<newline>''
          = length (typed_properties (properties t))"
    if "\<forall>p \<in> set (properties t). \<forall>ty. ptype p = Some ty \<longrightarrow>
           CHR ''\<newline>'' \<notin> set (pname p) \<and> CHR ''\<newline>'' \<notin> set (unwrapType ty)"
    using that by (intro member_lines_newlines) (auto simp: typed_properties_def)
  then show ?thesis
    by (simp add: buildInterface_closed typed_properties_def)
qed

theorem buildInterface_member_lines_witness:
  "buildInterface
     \<lparr>iname = ''Box'', openGenerics = Some [''T''], inherits = None,
      inheritsFromUnresolved = Map.empty,
      properties = [\<lparr>pname = ''items'', ptype = Some (ArrayOf (Type ''T'' None)), nullable = False\<rparr>,
                    \<lparr>pname = ''ghost'', ptype = None, nullable = False\<rparr>,
                    \<lparr>pname = ''a-b'', ptype = Some (Type ''long'' None), nullable = True\<rparr>]\<rparr>
     = ''  export interface Box<T> {\<newline>''
         @ ''    items: T[]\<newline>''
         @ ''    \"a-b\"?: long\<newline>''
         @ ''  }''
   \<and> count_list
        (concat (map (member_line ''    '')
           (typed_properties
              [\<lparr>pname = ''items'', ptype = Some (ArrayOf (Type ''T'' None)), nullable = False\<rparr>,
               \<lparr>pname = ''ghost'', ptype = None, nullable = False\<rparr>,
               \<lparr>pname = ''a-b'', ptype = Some (Type ''long'' None), nullable = True\<rparr>])))
        CHR ''\<newline>'' = 2"
proof -
  let ?t = "\<lparr>iname = ''Box'', openGenerics = Some [''T''], inherits = None,
      inheritsFromUnresolved = Map.empty,
      properties = [\<lparr>pname = ''items'', ptype = Some (ArrayOf (Type ''T'' None)), nullable = False\<rparr>,
                    \<lparr>pname = ''ghost'', ptype = None, nullable = False\<rparr>,
                    \<lparr>pname = ''a-b'', ptype = Some (Type ''long'' None), nullable = True\<rparr>]\<rparr>"
  have c: "cleanPropertyName ''items'' = ''items''" "cleanPropertyName ''a-b'' = ''\"a-b\"''"
    by (simp_all add: cleanPropertyName_def is_digit_def is_word_def)
  have h: "\<forall>p \<in> set (properties ?t). \<forall>ty. ptype p = Some ty \<longrightarrow>
           CHR ''\<newline>'' \<notin> set (pname p) \<and> CHR ''\<newline>'' \<notin> set (unwrapType ty)"
    by simp
  show ?thesis
    using h buildInterface_member_lines [of ?t]
    by (simp add: c member_line_def typed_properties_def generateComment_def stableApis_def
          endsWith_def buildGeneric_def buildInherits_def)
qed

section \<open>The walker and the written text\<close>

lemma emit_None_iff:
  "emit env t = None \<longleftrightarrow> type_name t \<in> set skipInterface \<or> (\<exists>n. t = Unrecognized n)"
  by (cases t) (simp_all add: emit_def)

lemma emitted_Nil_iff: "emitted env types = [] \<longleftrightarrow> (\<forall>t \<in> set types. emit env t = None)"
  by (induction types) (auto simp: emitted_def List.map_filter_simps split: option.splits)

text \<open>
  Claim C10. When the walk appends no declaration (every entry of the catalog, if any,
  is named in \<open>skipInterface\<close> or is of no known variant), the trim of two characters
  removes the opening brace and the line break of the namespace header. The text written
  is \<open>declare namespace T\<close>, a blank and a line break, the closing brace, an empty line
  and \<open>export default T\<close>; it has no opening brace.
\<close>

theorem typeDefinitions_without_declarations:
  assumes "\<forall>t \<in> set types. type_name t \<in> set skipInterface \<or> (\<exists>n. t = Unrecognized n)"
  shows "emitted env types = []
   \<and> typeDefinitions env types = ''declare namespace T \<newline>}\<newline>\<newline>export default T''
   \<and> generator_main dirname env types log
       = log @ [\<lparr>wpath = [dirname, ''..'', ''output'', ''typescript'', ''types.ts''],
                 wdata = ''declare namespace T \<newline>}\<newline>\<newline>export default T''\<rparr>]
   \<and> CHR ''{'' \<notin> set (typeDefinitions env types)"
proof -
  have e: "emitted env types = []"
    using assms by (simp add: emitted_Nil_iff emit_None_iff)
  then have "typeDefinitions env types = ''declare namespace T \<newline>}\<newline>\<newline>export default T''"
    by (rule typeDefinitions_nothing_emitted)
  with e show ?thesis
    by (simp add: generator_main_def)
qed

theorem typeDefinitions_without_declarations_witness:
  "typeDefinitions None
     [Interface \<lparr>iname = ''ResponseBase'', openGenerics = None, inherits = None,
                 inheritsFromUnresolved = Map.empty, properties = []\<rparr>,
      Unrecognized ''Endpoint'', StringAlias ''DictionaryResponseBase'']
     = ''declare namespace T \<newline>}\<newline>\<newline>export default T''
   \<and> typeDefinitions (Some ''1'') [] = ''declare namespace T \<newline>}\<newline>\<newline>export default T''"
proof -
  let ?ts = "[Interface \<lparr>iname = ''ResponseBase'', openGenerics = None, inherits = None,
                 inheritsFromUnresolved = Map.empty, properties = []\<rparr>,
      Unrecognized ''Endpoint'', StringAlias ''DictionaryResponseBase'']"
  have h: "\<forall>t \<in> set ?ts. type_name t \<in> set skipInterface \<or> (\<exists>n. t = Unrecognized n)"
    by (simp add: skipInterface_def)
  have h0: "\<forall>t \<in> set ([] :: type_definition list).
              type_name t \<in> set skipInterface \<or> (\<exists>n. t = Unrecognized n)"
    by simp
  show ?thesis
    using typeDefinitions_without_declarations [OF h, of None]
      typeDefinitions_without_declarations [OF h0, of "Some ''1''"]
    by blast
qed

text \<open>
  Claim C4, at the empty catalog. The generator performs one write, and the text written
  is not a namespace declaration wrapping the declarations: the opening brace of the
  header is trimmed away. (For a catalog with at least one emitted declaration the text
  is the wrapped, separated list: lemma \<open>typeDefinitions_wraps\<close>.)
\<close>

theorem typeDefinitions_empty_catalog:
  "typeDefinitions env [] = ''declare namespace T \<newline>}\<newline>\<newline>export default T''
   \<and> (\<nexists>inner. typeDefinitions env [] = ''declare namespace T {\<newline>'' @ inner)
   \<and> generator_main dirname env [] []
       = [\<lparr>wpath = [dirname, ''..'', ''output'', ''typescript'', ''types.ts''],
           wdata = ''declare namespace T \<newline>}\<newline>\<newline>export default T''\<rparr>]"
  by (simp add: generator_main_def typeDefinitions_def slice_0_m2_def)

end
